theory Spec2Isabelle
  imports Main
begin

section \<open>Python values used by the sources\<close>

text \<open>
  Python strings are modelled as \<^typ>\<open>string\<close>. The two source files are UTF-8; a
  code point beyond ASCII in a literal is written as its UTF-8 bytes. No property below
  depends on the length of such a literal.

  A Python \<^verbatim>\<open>dict\<close> keeps its keys in insertion order, and storing under a key
  that is already present replaces the value and leaves the key where it is. It is
  modelled as an association list with pairwise distinct keys.
\<close>

type_synonym ('k, 'v) dict = "('k \<times> 'v) list"

text \<open>\<^verbatim>\<open>d[k] = v\<close>\<close>

fun dict_setitem :: "('k, 'v) dict \<Rightarrow> 'k \<Rightarrow> 'v \<Rightarrow> ('k, 'v) dict" where
  "dict_setitem [] k v = [(k, v)]"
| "dict_setitem ((k', v') # d) k v =
     (if k' = k then (k', v) # d else (k', v') # dict_setitem d k v)"

text \<open>
  A dict display \<^verbatim>\<open>{k1: v1, k2: v2}\<close> and \<^verbatim>\<open>d.update({...})\<close> store the
  items one after the other, from left to right.
\<close>

definition dict_update :: "('k, 'v) dict \<Rightarrow> ('k \<times> 'v) list \<Rightarrow> ('k, 'v) dict" where
  "dict_update d kvs = fold (\<lambda>(k, v) acc. dict_setitem acc k v) kvs d"

definition dict_display :: "('k \<times> 'v) list \<Rightarrow> ('k, 'v) dict" where
  "dict_display kvs = dict_update [] kvs"

text \<open>\<^verbatim>\<open>list(d.keys())\<close>\<close>

definition dict_keys :: "('k, 'v) dict \<Rightarrow> 'k list" where
  "dict_keys d = map fst d"

text \<open>\<^verbatim>\<open>d.get(k, default)\<close>, on a dict of which only lookups are made.\<close>

definition dict_get :: "('k \<rightharpoonup> 'v) \<Rightarrow> 'k \<Rightarrow> 'v \<Rightarrow> 'v" where
  "dict_get d k dflt = (case d k of None \<Rightarrow> dflt | Some v \<Rightarrow> v)"

text \<open>
  \<^verbatim>\<open>xs.insert(i, x)\<close> for \<open>i \<ge> 0\<close>: the element goes before position \<open>i\<close>, and
  to the end when the list is shorter than \<open>i\<close>.
\<close>

definition list_insert :: "nat \<Rightarrow> 'a \<Rightarrow> 'a list \<Rightarrow> 'a list" where
  "list_insert i x xs = take i xs @ [x] @ drop i xs"

text \<open>
  The values an \<^verbatim>\<open>extras\<close> entry may hold, and Python's truth test on them.
  \<open>PyObject b\<close> is an object of any other kind, given by what the truth test returns
  on it.
\<close>

datatype py_value =
    PyNone
  | PyBool bool
  | PyInt int
  | PyStr string
  | PyList "py_value list"
  | PyObject bool

fun truthy :: "py_value \<Rightarrow> bool" where
  "truthy PyNone = False"
| "truthy (PyBool b) = b"
| "truthy (PyInt i) = (i \<noteq> 0)"
| "truthy (PyStr s) = (s \<noteq> [])"
| "truthy (PyList vs) = (vs \<noteq> [])"
| "truthy (PyObject b) = b"

text \<open>\<^verbatim>\<open>s in t\<close> on strings: \<open>s\<close> occurs in \<open>t\<close> as a contiguous run.\<close>

fun starts_with :: "string \<Rightarrow> string \<Rightarrow> bool" where
  "starts_with t [] = True"
| "starts_with [] (c # s) = False"
| "starts_with (d # t) (c # s) = (d = c \<and> starts_with t s)"

fun str_contains :: "string \<Rightarrow> string \<Rightarrow> bool" where
  "str_contains [] s = (s = [])"
| "str_contains (d # t) s = (starts_with (d # t) s \<or> str_contains t s)"


section \<open>concordia/typing/entity.py\<close>

text \<open>
  \<^verbatim>\<open>OutputType\<close> is a \<^verbatim>\<open>StrEnum\<close> with three members, made unique by
  \<^verbatim>\<open>@enum.unique\<close>; \<^verbatim>\<open>enum.auto()\<close> gives a member of a \<^verbatim>\<open>StrEnum\<close> its
  lower-cased name as value.
\<close>

datatype OutputType = FREE | CHOICE | FLOAT

fun OutputType_value :: "OutputType \<Rightarrow> string" where
  "OutputType_value FREE = ''free''"
| "OutputType_value CHOICE = ''choice''"
| "OutputType_value FLOAT = ''float''"

text \<open>
  The frozen dataclass \<^verbatim>\<open>ActionSpec\<close>. \<^verbatim>\<open>options\<close> and \<^verbatim>\<open>tag\<close> are
  \<^verbatim>\<open>... | None\<close> and default to \<^verbatim>\<open>None\<close>. The class has no
  \<^verbatim>\<open>__post_init__\<close>: the generated constructor stores its four arguments as they are.
\<close>

record ActionSpec =
  call_to_action :: string
  output_type :: OutputType
  options :: "string list option"
  tag :: "string option"

text \<open>
  The generated \<^verbatim>\<open>__init__\<close>. An argument that the caller leaves out is passed
  as \<open>None\<close> here, which is also its default.
\<close>

definition ActionSpec_init ::
  "string \<Rightarrow> OutputType \<Rightarrow> string list option \<Rightarrow> string option \<Rightarrow> ActionSpec" where
  "ActionSpec_init cta ot opts tg =
     \<lparr>call_to_action = cta, output_type = ot, options = opts, tag = tg\<rparr>"

definition DEFAULT_CALL_TO_ACTION :: string where
  "DEFAULT_CALL_TO_ACTION =
     ''What would {name} do for the next {timedelta}? '' @
     ''Give a specific activity. Pick an activity that '' @
     ''would normally take about {timedelta} to complete. '' @
     ''If the selected action has a direct or indirect object then it '' @
     ''must be specified explicitly. For example, it is valid to respond '' @
     ''with '' @ [CHR 0x22] @ ''{name} votes for Caroline because...'' @ [CHR 0x22] @ '' but not '' @
     ''valid to respond with '' @ [CHR 0x22] @ ''{name} votes because...'' @ [CHR 0x22] @ ''.''"

definition DEFAULT_ACTION_SPEC :: ActionSpec where
  "DEFAULT_ACTION_SPEC =
     ActionSpec_init DEFAULT_CALL_TO_ACTION FREE None (Some ''action'')"

text \<open>
  \<^verbatim>\<open>Entity.act(self, action_spec=DEFAULT_ACTION_SPEC)\<close> is abstract; what the
  signature fixes is the specification an implementation receives: the caller's, or
  the default one when the caller gives none.
\<close>

definition act_action_spec :: "ActionSpec option \<Rightarrow> ActionSpec" where
  "act_action_spec given = (case given of None \<Rightarrow> DEFAULT_ACTION_SPEC | Some s \<Rightarrow> s)"


section \<open>concordia/factory/agent: the options-perception agent factory\<close>

subsection \<open>What the factory receives and what it builds\<close>

type_synonym datetime = int
type_synonym timedelta = int

text \<open>
  Durations are counted in seconds: \<^verbatim>\<open>datetime.timedelta(hours=24)\<close> is
  \<open>24 * 3600\<close>.
\<close>

definition timedelta_hours :: "int \<Rightarrow> timedelta" where
  "timedelta_hours h = h * 3600"

text \<open>
  Of \<^verbatim>\<open>formative_memories.AgentConfig\<close> the factory reads three fields:
  \<^verbatim>\<open>name\<close>, \<^verbatim>\<open>goal\<close> (a string, empty when there is no goal) and the
  \<^verbatim>\<open>extras\<close> dict.
\<close>

record AgentConfig =
  name :: string
  goal :: string
  extras :: "string \<rightharpoonup> py_value"

text \<open>
  Modelled from the spec: the clock is an external collaborator, given by its interface
  \<^verbatim>\<open>now() -> timestamp; step_size() -> duration; current_interval_string() -> string\<close>.
  The record holds what the three calls return while the agent is built. A component
  that is given the bound method \<^verbatim>\<open>clock.now\<close> or
  \<^verbatim>\<open>clock.current_time_interval_str\<close> holds the clock.
\<close>

record MultiIntervalClock =
  now :: datetime
  get_step_size :: timedelta
  current_time_interval_str :: string

text \<open>
  \<^verbatim>\<open>legacy_associative_memory.AssociativeMemoryBank(memory)\<close> wraps the memory
  it is given.
\<close>

datatype 'b memory_bank = AssociativeMemoryBank 'b

text \<open>
  Modelled from the spec: the component classes of \<^verbatim>\<open>concordia.components.agent\<close>
  are not part of the sources at hand. A context component is a unit that holds the
  parameters it was built with; there is one constructor per class the factory
  instantiates, named as the class, with the keyword arguments in the order the factory
  writes them. Building a component does not fail. \<open>'m\<close> is the language model and
  \<open>'b\<close> the associative memory, both opaque. A logging channel
  \<^verbatim>\<open>measurements.get_channel(n).on_next\<close> is held as its name \<open>n\<close>.
\<close>

datatype ('m, 'b) component =
    Instructions string string
  | Observation MultiIntervalClock timedelta string string
  | ObservationSummary 'm MultiIntervalClock timedelta timedelta string string
  | ReportFunction MultiIntervalClock string string
  | IdentityWithoutPreAct 'm string string
  | SelfPerception 'm "(string, string) dict" string string
  | Constant string string string
  | SituationPerception 'm "(string, string) dict" MultiIntervalClock string string
  | PersonBySituation 'm "(string, string) dict" MultiIntervalClock string string
  | ScheduledHint 'm "(string, string) dict" MultiIntervalClock
      "(string \<Rightarrow> datetime \<Rightarrow> string) list" string string
  | AllSimilarMemories 'm "(string, string) dict" nat string string
  | AvailableOptionsPerception 'm "(string, string) dict" MultiIntervalClock string string
  | BestOptionPerception 'm "(string, string) dict" MultiIntervalClock string string
  | MemoryComponent "'b memory_bank"

text \<open>
  \<^verbatim>\<open>_get_class_name(object_)\<close> is \<^verbatim>\<open>object_.__class__.__name__\<close>: the name
  of the class statement that made the object's class, taken to be the name under which
  the factory calls the class.
\<close>

fun get_class_name :: "('m, 'b) component \<Rightarrow> string" where
  "get_class_name (Instructions _ _) = ''Instructions''"
| "get_class_name (Observation _ _ _ _) = ''Observation''"
| "get_class_name (ObservationSummary _ _ _ _ _ _) = ''ObservationSummary''"
| "get_class_name (ReportFunction _ _ _) = ''ReportFunction''"
| "get_class_name (IdentityWithoutPreAct _ _ _) = ''IdentityWithoutPreAct''"
| "get_class_name (SelfPerception _ _ _ _) = ''SelfPerception''"
| "get_class_name (Constant _ _ _) = ''Constant''"
| "get_class_name (SituationPerception _ _ _ _ _) = ''SituationPerception''"
| "get_class_name (PersonBySituation _ _ _ _ _) = ''PersonBySituation''"
| "get_class_name (ScheduledHint _ _ _ _ _ _) = ''ScheduledHint''"
| "get_class_name (AllSimilarMemories _ _ _ _ _) = ''AllSimilarMemories''"
| "get_class_name (AvailableOptionsPerception _ _ _ _ _) = ''AvailableOptionsPerception''"
| "get_class_name (BestOptionPerception _ _ _ _ _) = ''BestOptionPerception''"
| "get_class_name (MemoryComponent _) = ''MemoryComponent''"

text \<open>
  The \<^verbatim>\<open>components=\<close> argument of a component: the names of the components
  it reads, each with the label to show it under. A class built without that argument
  declares none.
\<close>

fun declared_components :: "('m, 'b) component \<Rightarrow> (string, string) dict" where
  "declared_components (SelfPerception _ cs _ _) = cs"
| "declared_components (SituationPerception _ cs _ _ _) = cs"
| "declared_components (PersonBySituation _ cs _ _ _) = cs"
| "declared_components (ScheduledHint _ cs _ _ _ _) = cs"
| "declared_components (AllSimilarMemories _ cs _ _ _) = cs"
| "declared_components (AvailableOptionsPerception _ cs _ _ _) = cs"
| "declared_components (BestOptionPerception _ cs _ _ _) = cs"
| "declared_components _ = []"

text \<open>\<^verbatim>\<open>concat_act_component.ConcatActComponent\<close>, as the arguments it is built with.\<close>

record 'm ConcatActComponent =
  act_model :: 'm
  act_clock :: MultiIntervalClock
  component_order :: "string list"
  act_logging_channel :: string

text \<open>
  \<^verbatim>\<open>entity_agent_with_logging.EntityAgentWithLogging\<close>, as the arguments it is
  built with (\<open>entity_agent_name\<close> for \<^verbatim>\<open>agent_name=\<close>).
  \<^verbatim>\<open>component_logging\<close> is the \<^verbatim>\<open>Measurements\<close> object, seen as
  the names of the channels requested from it, in the order of the requests.
\<close>

record ('m, 'b) EntityAgentWithLogging =
  entity_agent_name :: string
  act_component :: "'m ConcatActComponent"
  context_components :: "(string, ('m, 'b) component) dict"
  component_logging :: "string list"

text \<open>The one exception the factory raises.\<close>

datatype error = ValueError string

fun error_class_name :: "error \<Rightarrow> string" where
  "error_class_name (ValueError _) = ''ValueError''"

fun error_message :: "error \<Rightarrow> string" where
  "error_message (ValueError m) = m"


subsection \<open>get_pomodoro_reminder\<close>

text \<open>
  The function returns a closure over its two arguments. The closure takes a chain of
  thought and the clock's time, and formats
  \<^verbatim>\<open>f'{agent_name} should stay on topic: {overarching_goal}.'\<close>.
\<close>

definition get_pomodoro_reminder :: "string \<Rightarrow> string \<Rightarrow> 'c \<Rightarrow> 't \<Rightarrow> string" where
  "get_pomodoro_reminder overarching_goal agent_name =
     (\<lambda>chain_of_thought clock_now.
        agent_name @ '' should stay on topic: '' @ overarching_goal @ ''.'')"

subsection \<open>build_agent: labels and components\<close>

text \<open>
  Each local of \<^verbatim>\<open>build_agent\<close> is a definition of its own, a function of the
  arguments and locals it is computed from. \<^verbatim>\<open>agent_name\<close> is
  \<^verbatim>\<open>config.name\<close>.
\<close>

definition instructions :: "string \<Rightarrow> ('m, 'b) component" where
  "instructions agent_name = Instructions agent_name ''Instructions''"

definition observation_label :: string where
  "observation_label = ''\<newline>Observation''"

definition observation :: "MultiIntervalClock \<Rightarrow> ('m, 'b) component" where
  "observation clock = Observation clock (get_step_size clock) observation_label ''Observation''"

definition observation_summary_label :: string where
  "observation_summary_label = ''\<newline>Summary of recent observations''"

definition observation_summary :: "'m \<Rightarrow> MultiIntervalClock \<Rightarrow> ('m, 'b) component" where
  "observation_summary model clock =
     ObservationSummary model clock (timedelta_hours 24) (timedelta_hours 0)
       observation_summary_label ''ObservationSummary''"

definition time_display :: "MultiIntervalClock \<Rightarrow> ('m, 'b) component" where
  "time_display clock = ReportFunction clock ''\<newline>Current time'' ''TimeDisplay''"

definition identity_label :: string where
  "identity_label = ''\<newline>Identity characteristics''"

definition identity_characteristics :: "'m \<Rightarrow> ('m, 'b) component" where
  "identity_characteristics model =
     IdentityWithoutPreAct model ''IdentityWithoutPreAct'' identity_label"

definition self_perception_label :: "string \<Rightarrow> string" where
  "self_perception_label agent_name =
     ''\<newline>Question: What kind of person is '' @ agent_name @ ''?\<newline>Answer''"

definition self_perception :: "string \<Rightarrow> 'm \<Rightarrow> ('m, 'b) component" where
  "self_perception agent_name model =
     SelfPerception model
       (dict_display
          [(get_class_name (identity_characteristics model :: ('m, 'b) component),
            identity_label)])
       (self_perception_label agent_name) ''SelfPerception''"

definition paranoia_label :: "string \<Rightarrow> string" where
  "paranoia_label agent_name = ''\<newline>'' @ agent_name @ [CHR 0x27] @ ''s PERCEPTION''"

text \<open>
  The state of the paranoia component is one string, written in the source as adjacent
  literals. The literal that begins \<^verbatim>\<open>'plausible on the surface.\<close> has no
  \<^verbatim>\<open>f\<close> prefix, so its \<^verbatim>\<open>{agent_name}\<close> stays as written.
\<close>

definition rsquo :: string where
  "rsquo = [CHR 0xE2, CHR 0x80, CHR 0x99]"

definition mdash :: string where
  "mdash = [CHR 0xE2, CHR 0x80, CHR 0x94]"

definition paranoia_state :: "string \<Rightarrow> string" where
  "paranoia_state agent_name =
     agent_name @ '' is convinced that something is subtly wrong with the people around them. '' @
     ''To '' @ agent_name @ '', it seems that some individuals have inexplicably started behaving '' @
     ''out of character. Though they may look the same, their quirks, habits, and mannerisms '' @
     ''seem slightly off. This leads '' @ agent_name @ '' to suspect that some people may have been replaced '' @
     ''by imposters. However, '' @ agent_name @ '' is not fully aware of the source of this paranoia. '' @
     ''They don'' @ rsquo @ ''t explicitly believe in '' @ [CHR 0x22] @ ''body snatchers,'' @ [CHR 0x22] @ '' but they have a nagging feeling that '' @
     ''these changes signal something sinister. '' @ agent_name @ '' attributes their suspicions to other, '' @
     ''more rational causes, such as stress, misunderstandings, or bad intentions. '' @
     ''But deep down, '' @ agent_name @ '' feels that the world is not as it seems, and '' @
     ''their trust in others has become fragile. Small deviations in behavior'' @ mdash @ ''like a slight shift '' @
     ''in accent, a forgotten joke, or an unexpected reaction'' @ mdash @ ''trigger doubt and suspicion. '' @
     agent_name @ '' remains wary of anyone who doesn'' @ rsquo @ ''t align perfectly with their prior '' @
     ''understanding of that person'' @ rsquo @ ''s behavior, even if they can'' @ rsquo @ ''t fully articulate why. '' @
     ''Because '' @ agent_name @ '' is unaware of the full extent of their bias, they never explicitly accuse '' @
     ''anyone of being an imposter. Instead, '' @ agent_name @ '' creates other justifications for conflicts '' @
     ''or mistrust, citing issues like dishonesty, unfairness, or personal grievances. '' @
     ''To outsiders, '' @ agent_name @ '' seems paranoid or overcautious, but their reasons always appear '' @
     ''plausible on the surface. {agent_name} believes they are merely being cautious in a world '' @
     ''filled with deception, even though they can'' @ rsquo @ ''t quite see the veil that clouds their judgment.''"

definition paranoia :: "string \<Rightarrow> ('m, 'b) component" where
  "paranoia agent_name =
     Constant (paranoia_state agent_name) (paranoia_label agent_name) ''Perception''"

definition situation_perception_label :: "string \<Rightarrow> string" where
  "situation_perception_label agent_name =
     ''\<newline>Question: What kind of situation is '' @ agent_name @ '' in '' @
     ''right now?\<newline>Answer''"

definition situation_perception ::
  "string \<Rightarrow> 'm \<Rightarrow> MultiIntervalClock \<Rightarrow> ('m, 'b) component" where
  "situation_perception agent_name model clock =
     SituationPerception model
       (dict_display
          [(get_class_name (observation clock :: ('m, 'b) component), observation_label),
           (get_class_name (observation_summary model clock :: ('m, 'b) component),
            observation_summary_label)])
       clock (situation_perception_label agent_name) ''SituationPerception''"

definition person_by_situation_label :: "string \<Rightarrow> string" where
  "person_by_situation_label agent_name =
     ''\<newline>Question: What would a person like '' @ agent_name @ '' do in '' @
     ''a situation like this?\<newline>Answer''"

definition person_by_situation ::
  "string \<Rightarrow> 'm \<Rightarrow> MultiIntervalClock \<Rightarrow> ('m, 'b) component" where
  "person_by_situation agent_name model clock =
     PersonBySituation model
       (dict_display
          [(get_class_name (self_perception agent_name model :: ('m, 'b) component),
            self_perception_label agent_name),
           (get_class_name (situation_perception agent_name model clock :: ('m, 'b) component),
            situation_perception_label agent_name)])
       clock (person_by_situation_label agent_name) ''PersonBySituation''"

definition pomodoro_label :: "string \<Rightarrow> string" where
  "pomodoro_label agent_name =
     ''\<newline>Remind '' @ agent_name @ '' to stay locked in on the task at hand''"

definition pomodoro :: "AgentConfig \<Rightarrow> 'm \<Rightarrow> MultiIntervalClock \<Rightarrow> ('m, 'b) component" where
  "pomodoro config model clock =
     (let agent_name = name config;
          pomodoro_reminder = get_pomodoro_reminder (goal config) agent_name
      in ScheduledHint model
           (dict_display
              [(get_class_name (observation_summary model clock :: ('m, 'b) component),
                observation_summary_label),
               (get_class_name (situation_perception agent_name model clock :: ('m, 'b) component),
                situation_perception_label agent_name),
               (get_class_name (time_display clock :: ('m, 'b) component),
                ''The current date/time is'')])
           clock [pomodoro_reminder] (pomodoro_label agent_name) ''PomodoroHint'')"

definition relevant_memories_label :: string where
  "relevant_memories_label = ''\<newline>Recalled memories and observations''"

definition relevant_memories :: "'m \<Rightarrow> MultiIntervalClock \<Rightarrow> ('m, 'b) component" where
  "relevant_memories model clock =
     AllSimilarMemories model
       (dict_display
          [(get_class_name (observation_summary model clock :: ('m, 'b) component),
            observation_summary_label),
           (get_class_name (time_display clock :: ('m, 'b) component),
            ''The current date/time is'')])
       10 relevant_memories_label ''AllSimilarMemories''"

text \<open>
  \<^verbatim>\<open>goal_label\<close> and \<^verbatim>\<open>overarching_goal\<close> are set under
  \<^verbatim>\<open>if config.goal:\<close>, the truth test of a string: it is not empty. In the other
  branch both are \<^verbatim>\<open>None\<close>, and \<^verbatim>\<open>goal_label\<close> is not read again.
\<close>

definition goal_label :: string where
  "goal_label = ''\<newline>Overarching goal''"

definition overarching_goal :: "AgentConfig \<Rightarrow> ('m, 'b) component option" where
  "overarching_goal config =
     (if goal config \<noteq> [] then Some (Constant (goal config) goal_label goal_label)
      else None)"

definition options_perception_label :: "string \<Rightarrow> string" where
  "options_perception_label agent_name =
     ''\<newline>Question: Which options are available to '' @ agent_name @ '' '' @
     ''right now?\<newline>Answer''"

definition options_perception ::
  "AgentConfig \<Rightarrow> 'm \<Rightarrow> MultiIntervalClock \<Rightarrow> ('m, 'b) component" where
  "options_perception config model clock =
     (let options_perception_components = [];
          options_perception_components =
            (if goal config \<noteq> []
             then dict_setitem options_perception_components goal_label goal_label
             else options_perception_components);
          options_perception_components =
            dict_update options_perception_components
              [(get_class_name (observation clock :: ('m, 'b) component), observation_label),
               (get_class_name (observation_summary model clock :: ('m, 'b) component),
                observation_summary_label),
               (get_class_name (relevant_memories model clock :: ('m, 'b) component),
                relevant_memories_label)]
      in AvailableOptionsPerception model options_perception_components clock
           (options_perception_label (name config)) ''AvailableOptionsPerception'')"

definition best_option_perception_label :: "string \<Rightarrow> string" where
  "best_option_perception_label agent_name =
     ''\<newline>Question: Of the options available to '' @ agent_name @ '', and '' @
     ''given their goal, which choice of action or strategy is '' @
     ''best for '' @ agent_name @ '' to take right now?\<newline>Answer''"

definition best_option_perception ::
  "AgentConfig \<Rightarrow> 'm \<Rightarrow> MultiIntervalClock \<Rightarrow> ('m, 'b) component" where
  "best_option_perception config model clock =
     (let best_option_perception = [];
          best_option_perception =
            (if goal config \<noteq> []
             then dict_setitem best_option_perception goal_label goal_label
             else best_option_perception);
          best_option_perception =
            dict_update best_option_perception
              [(get_class_name (observation clock :: ('m, 'b) component), observation_label),
               (get_class_name (observation_summary model clock :: ('m, 'b) component),
                observation_summary_label),
               (get_class_name (relevant_memories model clock :: ('m, 'b) component),
                relevant_memories_label),
               (get_class_name (options_perception config model clock :: ('m, 'b) component),
                options_perception_label (name config))]
      in BestOptionPerception model best_option_perception clock
           (best_option_perception_label (name config)) ''BestOptionPerception'')"

text \<open>The tuple \<^verbatim>\<open>entity_components\<close>, in the order the source lists it.\<close>

definition entity_components ::
  "AgentConfig \<Rightarrow> 'm \<Rightarrow> MultiIntervalClock \<Rightarrow> ('m, 'b) component list" where
  "entity_components config model clock =
     (let agent_name = name config
      in [instructions agent_name,
          time_display clock,
          observation clock,
          observation_summary model clock,
          relevant_memories model clock,
          self_perception agent_name model,
          paranoia agent_name,
          situation_perception agent_name model clock,
          person_by_situation agent_name model clock,
          options_perception config model clock,
          best_option_perception config model clock,
          pomodoro config model clock,
          identity_characteristics model])"

text \<open>
  The channels requested from the \<^verbatim>\<open>Measurements\<close> object, in the order of the
  \<^verbatim>\<open>get_channel\<close> calls.
\<close>

definition measurements :: "AgentConfig \<Rightarrow> string list" where
  "measurements config =
     [''Instructions'', ''Observation'', ''ObservationSummary'', ''TimeDisplay'',
      ''IdentityWithoutPreAct'', ''SelfPerception'', ''Perception'', ''SituationPerception'',
      ''PersonBySituation'', ''PomodoroHint'', ''AllSimilarMemories''] @
     (if goal config \<noteq> [] then [goal_label] else []) @
     [''AvailableOptionsPerception'', ''BestOptionPerception'', ''ActComponent'']"

subsection \<open>build_agent: the registry and the agent\<close>

text \<open>
  The dict comprehension
  \<^verbatim>\<open>{_get_class_name(component): component for component in entity_components}\<close>.
\<close>

definition components_by_class_name ::
  "('m, 'b) component list \<Rightarrow> (string, ('m, 'b) component) dict" where
  "components_by_class_name cs = dict_display (map (\<lambda>c. (get_class_name c, c)) cs)"

text \<open>
  \<^verbatim>\<open>agent_components.memory_component.DEFAULT_MEMORY_COMPONENT_NAME\<close> is defined
  outside the sources at hand: the reserved name of the memory component is the first
  argument of the model, and every result below holds for any value of it, or says which
  values it needs.

  \<^verbatim>\<open>del update_time_interval\<close> is the first statement: the argument is not read.
  The two branches of \<^verbatim>\<open>if overarching_goal is not None:\<close> are the two cases on
  \<open>overarching_goal config\<close>.
\<close>

definition build_agent ::
  "string \<Rightarrow> AgentConfig \<Rightarrow> 'm \<Rightarrow> 'b \<Rightarrow> MultiIntervalClock \<Rightarrow> timedelta
   \<Rightarrow> error + ('m, 'b) EntityAgentWithLogging" where
  "build_agent DEFAULT_MEMORY_COMPONENT_NAME config model memory clock update_time_interval =
     (if \<not> truthy (dict_get (extras config) ''main_character'' (PyBool False))
      then Inl (ValueError
             (''This function is meant for a main character '' @
              ''but it was called on a supporting character.''))
      else
        let raw_memory = AssociativeMemoryBank memory;
            components_of_agent = components_by_class_name (entity_components config model clock);
            components_of_agent =
              dict_setitem components_of_agent DEFAULT_MEMORY_COMPONENT_NAME
                (MemoryComponent raw_memory);
            component_order = dict_keys components_of_agent;
            (components_of_agent, component_order) =
              (case overarching_goal config of
                 Some the_goal \<Rightarrow>
                   (dict_setitem components_of_agent goal_label the_goal,
                    list_insert 1 goal_label component_order)
               | None \<Rightarrow> (components_of_agent, component_order));
            act_component =
              \<lparr>act_model = model, act_clock = clock, component_order = component_order,
               act_logging_channel = ''ActComponent''\<rparr>
        in Inr \<lparr>entity_agent_name = name config,
                act_component = act_component,
                context_components = components_of_agent,
                component_logging = measurements config\<rparr>)"


subsection \<open>Example inputs\<close>

text \<open>
  Four configurations and a clock, on which the results below are instantiated: a main
  character with a goal, a main character without one, and two characters whose extras
  do not have the \<^verbatim>\<open>main_character\<close> flag, one with a goal and one without.
\<close>

definition bob :: AgentConfig where
  "bob = \<lparr>name = ''Bob'', goal = ''find the key'', extras = [''main_character'' \<mapsto> PyBool True]\<rparr>"

definition ann :: AgentConfig where
  "ann = \<lparr>name = ''Ann'', goal = [], extras = [''main_character'' \<mapsto> PyBool True]\<rparr>"

definition extra :: AgentConfig where
  "extra = \<lparr>name = ''Extra'', goal = ''wait'', extras = Map.empty\<rparr>"

definition sue :: AgentConfig where
  "sue = \<lparr>name = ''Sue'', goal = [], extras = Map.empty\<rparr>"

definition noon :: MultiIntervalClock where
  "noon = \<lparr>now = 43200, get_step_size = 600, current_time_interval_str = ''12:00 - 12:10''\<rparr>"


section \<open>Properties of the dict model\<close>

lemma dict_setitem_keys:
  "map fst (dict_setitem d k v) = (if k \<in> fst ` set d then map fst d else map fst d @ [k])"
  by (induction d) (force+)

lemma dict_setitem_dom: "fst ` set (dict_setitem d k v) = insert k (fst ` set d)"
  using dict_setitem_keys [of d k v, THEN arg_cong, of set]
  by (auto simp: image_iff split: if_splits)

lemma dict_setitem_subset: "set (dict_setitem d k v) \<subseteq> insert (k, v) (set d)"
  by (induction d) (auto split: if_splits)

lemma dict_setitem_values: "snd ` set (dict_setitem d k v) \<subseteq> insert v (snd ` set d)"
  using dict_setitem_subset [of d k v] by force

lemma dict_setitem_fresh: "k \<notin> fst ` set d \<Longrightarrow> dict_setitem d k v = d @ [(k, v)]"
  by (induction d) (auto)


lemma map_of_dict_setitem: "map_of (dict_setitem d k v) = (map_of d)(k \<mapsto> v)"
  by (induction d) (auto)

lemma dict_update_Nil: "dict_update d [] = d"
  by (simp add: dict_update_def)

lemma dict_update_Cons: "dict_update d ((k, v) # kvs) = dict_update (dict_setitem d k v) kvs"
  by (simp add: dict_update_def)

lemma dict_update_fresh:
  "distinct (map fst d @ map fst kvs) \<Longrightarrow> dict_update d kvs = d @ kvs"
proof (induction kvs arbitrary: d)
  case Nil
  then show ?case by (simp add: dict_update_Nil)
next
  case (Cons kv kvs)
  obtain k v where kv: "kv = (k, v)" by (cases kv)
  from Cons.prems kv have fresh: "k \<notin> fst ` set d" by auto
  from Cons.prems kv have "distinct (map fst (d @ [(k, v)]) @ map fst kvs)" by auto
  then have "dict_update (d @ [(k, v)]) kvs = (d @ [(k, v)]) @ kvs" by (rule Cons.IH)
  with fresh kv show ?case by (simp add: dict_update_Cons dict_setitem_fresh)
qed




lemma entity_components_names:
  "map get_class_name (entity_components config model clock) =
     [''Instructions'', ''ReportFunction'', ''Observation'', ''ObservationSummary'',
      ''AllSimilarMemories'', ''SelfPerception'', ''Constant'', ''SituationPerception'',
      ''PersonBySituation'', ''AvailableOptionsPerception'', ''BestOptionPerception'',
      ''ScheduledHint'', ''IdentityWithoutPreAct'']"
  by (simp add: entity_components_def Let_def instructions_def time_display_def observation_def
      observation_summary_def relevant_memories_def self_perception_def paranoia_def
      situation_perception_def person_by_situation_def options_perception_def
      best_option_perception_def pomodoro_def identity_characteristics_def)

lemma components_by_class_name_distinct:
  "distinct (map get_class_name cs) \<Longrightarrow>
   components_by_class_name cs = map (\<lambda>c. (get_class_name c, c)) cs"
  using dict_update_fresh [of "[]" "map (\<lambda>c. (get_class_name c, c)) cs"]
  by (simp add: components_by_class_name_def dict_display_def comp_def)

lemma registry_of_entity_components:
  "components_by_class_name (entity_components config model clock) =
   map (\<lambda>c. (get_class_name c, c)) (entity_components config model clock)"
  by (rule components_by_class_name_distinct) (simp add: entity_components_names)


section \<open>The shape of the agent that build_agent returns\<close>

lemma build_agent_InrD:
  fixes a :: "('m, 'b) EntityAgentWithLogging"
  assumes "build_agent mn config model memory clock u = Inr a"
  shows "truthy (dict_get (extras config) ''main_character'' (PyBool False))"
    and "context_components a =
           (case overarching_goal config of
              Some g \<Rightarrow>
                dict_setitem
                  (dict_setitem (components_by_class_name (entity_components config model clock))
                     mn (MemoryComponent (AssociativeMemoryBank memory)))
                  goal_label g
            | None \<Rightarrow>
                dict_setitem (components_by_class_name (entity_components config model clock))
                  mn (MemoryComponent (AssociativeMemoryBank memory)))"
    and "component_order (act_component a) =
           (case (overarching_goal config :: ('m, 'b) component option) of
              Some g \<Rightarrow>
                list_insert 1 goal_label
                  (dict_keys
                     (dict_setitem
                        (components_by_class_name
                           (entity_components config model clock :: ('m, 'b) component list))
                        mn (MemoryComponent (AssociativeMemoryBank memory))))
            | None \<Rightarrow>
                dict_keys
                  (dict_setitem
                     (components_by_class_name
                        (entity_components config model clock :: ('m, 'b) component list))
                     mn (MemoryComponent (AssociativeMemoryBank memory))))"
  using assms
  by (auto simp: build_agent_def Let_def split: if_splits option.splits)

lemma build_agent_succeeds:
  assumes "truthy (dict_get (extras config) ''main_character'' (PyBool False))"
  shows "\<exists>a. build_agent mn config model memory clock u = Inr a"
  using assms by (simp add: build_agent_def Let_def split: option.splits prod.splits)

lemma registry_keys:
  fixes v :: "('m, 'b) component"
  shows "dict_keys (dict_setitem (components_by_class_name (entity_components config model clock)) mn v) =
     map get_class_name (entity_components config model clock :: ('m, 'b) component list) @
     (if mn \<in> set (map get_class_name (entity_components config model clock :: ('m, 'b) component list))
      then [] else [mn])"
  by (simp add: dict_keys_def dict_setitem_keys registry_of_entity_components comp_def image_image)

lemma goal_label_not_class_name:
  "goal_label \<notin> set (map get_class_name (entity_components config model clock))"
  by (simp add: entity_components_names goal_label_def)


lemma dict_setitem_keeps:
  "(k', v') \<in> set d \<Longrightarrow> k' \<noteq> k \<Longrightarrow> (k', v') \<in> set (dict_setitem d k v)"
  by (induction d) auto

lemma declared_component_keys:
  "dict_keys (declared_components (instructions n :: ('m, 'b) component)) = []"
  "dict_keys (declared_components (time_display clock :: ('m, 'b) component)) = []"
  "dict_keys (declared_components (observation clock :: ('m, 'b) component)) = []"
  "dict_keys (declared_components (observation_summary model clock :: ('m, 'b) component)) = []"
  "dict_keys (declared_components (identity_characteristics model :: ('m, 'b) component)) = []"
  "dict_keys (declared_components (paranoia n :: ('m, 'b) component)) = []"
  "dict_keys (declared_components (relevant_memories model clock :: ('m, 'b) component)) =
     [''ObservationSummary'', ''ReportFunction'']"
  "dict_keys (declared_components (self_perception n model :: ('m, 'b) component)) =
     [''IdentityWithoutPreAct'']"
  "dict_keys (declared_components (situation_perception n model clock :: ('m, 'b) component)) =
     [''Observation'', ''ObservationSummary'']"
  "dict_keys (declared_components (person_by_situation n model clock :: ('m, 'b) component)) =
     [''SelfPerception'', ''SituationPerception'']"
  "dict_keys (declared_components (pomodoro config model clock :: ('m, 'b) component)) =
     [''ObservationSummary'', ''SituationPerception'', ''ReportFunction'']"
  "dict_keys (declared_components (options_perception config model clock :: ('m, 'b) component)) =
     (if goal config \<noteq> [] then [goal_label] else []) @
     [''Observation'', ''ObservationSummary'', ''AllSimilarMemories'']"
  "dict_keys (declared_components (best_option_perception config model clock :: ('m, 'b) component)) =
     (if goal config \<noteq> [] then [goal_label] else []) @
     [''Observation'', ''ObservationSummary'', ''AllSimilarMemories'',
      ''AvailableOptionsPerception'']"
  by (simp_all add: Let_def instructions_def time_display_def observation_def
      observation_summary_def relevant_memories_def self_perception_def paranoia_def
      situation_perception_def person_by_situation_def options_perception_def
      best_option_perception_def pomodoro_def identity_characteristics_def
      dict_display_def dict_update_def dict_keys_def goal_label_def)

lemma declared_components_of_entity_components:
  fixes c :: "('m, 'b) component"
  assumes "c \<in> set (entity_components config model clock)"
    and "k \<in> set (dict_keys (declared_components c))"
  shows "k \<in> set (map get_class_name (entity_components config model clock :: ('m, 'b) component list))
       \<or> (goal config \<noteq> [] \<and> k = goal_label)"
proof -
  from assms(1) have
    "c \<in> {instructions (name config), time_display clock, observation clock,
          observation_summary model clock, relevant_memories model clock,
          self_perception (name config) model, paranoia (name config),
          situation_perception (name config) model clock,
          person_by_situation (name config) model clock,
          options_perception config model clock, best_option_perception config model clock,
          pomodoro config model clock, identity_characteristics model}"
    by (simp add: entity_components_def Let_def)
  with assms(2) show ?thesis
    unfolding entity_components_names
    by (auto simp: declared_component_keys split: if_splits)
qed

lemma entity_component_registered:
  fixes a :: "('m, 'b) EntityAgentWithLogging"
  assumes built: "build_agent mn config model memory clock u = Inr a"
    and c: "c \<in> set (entity_components config model clock)"
    and mn: "mn \<noteq> get_class_name c"
  shows "(get_class_name c, c) \<in> set (context_components a)"
proof -
  let ?ecs = "entity_components config model clock :: ('m, 'b) component list"
  let ?R = "dict_setitem (components_by_class_name ?ecs) mn
              (MemoryComponent (AssociativeMemoryBank memory))"
  from c have "(get_class_name c, c) \<in> set (components_by_class_name ?ecs)"
    by (auto simp: registry_of_entity_components)
  with mn have inR: "(get_class_name c, c) \<in> set ?R"
    by (simp add: dict_setitem_keeps)
  have "goal_label \<notin> set (map get_class_name ?ecs)"
    by (rule goal_label_not_class_name)
  with c have "get_class_name c \<noteq> goal_label" by (auto simp: image_iff)
  with inR have "(get_class_name c, c) \<in> set (dict_setitem ?R goal_label g)" for g
    by (simp add: dict_setitem_keeps)
  with inR show ?thesis
    using build_agent_InrD(2) [OF built] by (simp split: option.splits)
qed

lemma goal_constant_not_entity_component:
  "Constant g goal_label goal_label \<notin> set (entity_components config model clock)"
  by (simp add: entity_components_def Let_def instructions_def time_display_def observation_def
      observation_summary_def relevant_memories_def self_perception_def paranoia_def
      situation_perception_def person_by_situation_def options_perception_def
      best_option_perception_def pomodoro_def identity_characteristics_def goal_label_def)




section \<open>The claims\<close>

text \<open>
  C1. For every configuration with a non-empty overarching goal, the component order that
  \<^verbatim>\<open>build_agent\<close> produces has the goal component's name at index 1, right after
  the first entry, \<^verbatim>\<open>Instructions\<close>; this does not follow the goal's place in the
  name-to-component mapping, where the goal component is registered under that name and
  its key is the last one.
\<close>

theorem goal_second_in_component_order:
  fixes a :: "('m, 'b) EntityAgentWithLogging"
  assumes built: "build_agent mn config model memory clock u = Inr a"
    and has_goal: "goal config \<noteq> []"
  shows "component_order (act_component a) ! 0 = ''Instructions''
       \<and> component_order (act_component a) ! 1 = goal_label
       \<and> map_of (context_components a) goal_label = Some (Constant (goal config) goal_label goal_label)
       \<and> last (dict_keys (context_components a)) = goal_label"
proof -
  let ?ecs = "entity_components config model clock :: ('m, 'b) component list"
  let ?R = "dict_setitem (components_by_class_name ?ecs) mn
              (MemoryComponent (AssociativeMemoryBank memory))"
  let ?g = "Constant (goal config) goal_label goal_label :: ('m, 'b) component"
  from has_goal have og: "overarching_goal config = Some ?g"
    by (simp add: overarching_goal_def)
  have order: "component_order (act_component a) = list_insert 1 goal_label (dict_keys ?R)"
    using build_agent_InrD(3) [OF built] og by simp
  have reg: "context_components a = dict_setitem ?R goal_label ?g"
    using build_agent_InrD(2) [OF built] og by simp
  have keys: "dict_keys ?R = map get_class_name ?ecs @
                (if mn \<in> set (map get_class_name ?ecs) then [] else [mn])"
    by (rule registry_keys)
  have "\<exists>rest. dict_keys ?R = ''Instructions'' # rest"
    unfolding keys by (simp add: entity_components_names)
  then obtain rest where rest: "dict_keys ?R = ''Instructions'' # rest" ..
  have ord: "component_order (act_component a) = ''Instructions'' # goal_label # rest"
    unfolding order rest by (simp add: list_insert_def)
  have lookup: "map_of (context_components a) goal_label = Some ?g"
    unfolding reg by (simp add: map_of_dict_setitem)
  have notcls: "goal_label \<notin> set (map get_class_name ?ecs)"
    by (rule goal_label_not_class_name)
  have "last (dict_keys (context_components a)) = goal_label"
  proof (cases "goal_label \<in> fst ` set ?R")
    case True
    then have "goal_label \<in> set (dict_keys ?R)" by (simp add: dict_keys_def)
    with notcls have "mn = goal_label \<and> mn \<notin> set (map get_class_name ?ecs)"
      unfolding keys by (auto split: if_splits)
    then have "dict_keys ?R = map get_class_name ?ecs @ [goal_label]"
      unfolding keys by auto
    moreover from True have "dict_keys (context_components a) = dict_keys ?R"
      unfolding reg by (simp add: dict_keys_def dict_setitem_keys)
    ultimately show ?thesis by simp
  next
    case False
    then have "dict_keys (context_components a) = dict_keys ?R @ [goal_label]"
      unfolding reg by (simp add: dict_keys_def dict_setitem_keys)
    then show ?thesis by simp
  qed
  with ord lookup show ?thesis by simp
qed

theorem goal_second_in_component_order_witness:
  "\<exists>a :: (unit, unit) EntityAgentWithLogging.
     build_agent ''__memory__'' bob () () noon 600 = Inr a
     \<and> goal bob \<noteq> []
     \<and> component_order (act_component a) ! 1 = goal_label"
proof -
  have t: "truthy (dict_get (extras bob) ''main_character'' (PyBool False))"
    by (simp add: bob_def dict_get_def)
  obtain a :: "(unit, unit) EntityAgentWithLogging"
    where a: "build_agent ''__memory__'' bob () () noon 600 = Inr a"
    using build_agent_succeeds [OF t, of "''__memory__''" "()" "()" noon 600] by blast
  have g: "goal bob \<noteq> []" by (simp add: bob_def)
  from goal_second_in_component_order [OF a g] a g show ?thesis by blast
qed

text \<open>
  C2. The claim: for every configuration whose extras do not flag the character as a main
  character, \<^verbatim>\<open>build_agent\<close> fails at build time with a
  \<^verbatim>\<open>ConfigurationError\<close> naming the offending flag.

  The source raises \<^verbatim>\<open>ValueError\<close>, and its fixed message speaks of "a main
  character" without the flag's name \<^verbatim>\<open>main_character\<close>. On a configuration
  whose extras are empty, the call fails, the class of the error is
  \<^verbatim>\<open>ValueError\<close>, and the flag's name does not occur in the message.
\<close>

theorem supporting_character_error_counterexample:
  "isl (build_agent ''__memory__'' extra () () noon 600)
   \<and> error_class_name (projl (build_agent ''__memory__'' extra () () noon 600)) = ''ValueError''
   \<and> error_class_name (projl (build_agent ''__memory__'' extra () () noon 600)) \<noteq> ''ConfigurationError''
   \<and> \<not> str_contains (error_message (projl (build_agent ''__memory__'' extra () () noon 600)))
         ''main_character''"
  by (simp add: build_agent_def extra_def dict_get_def)

text \<open>
  C2, as the source has it. For every configuration whose
  \<^verbatim>\<open>extras.get('main_character', False)\<close> is false under Python's truth test,
  \<^verbatim>\<open>build_agent\<close> fails at build time: it returns no agent, on which
  \<^verbatim>\<open>act\<close> or \<^verbatim>\<open>observe\<close> could be called, and raises
  \<^verbatim>\<open>ValueError\<close> with the message below.
\<close>

theorem supporting_character_rejected:
  assumes "\<not> truthy (dict_get (extras config) ''main_character'' (PyBool False))"
  shows "build_agent mn config model memory clock u =
           Inl (ValueError
             ''This function is meant for a main character but it was called on a supporting character.'')"
  using assms by (simp add: build_agent_def)

theorem supporting_character_rejected_witness:
  "\<not> truthy (dict_get (extras extra) ''main_character'' (PyBool False))
   \<and> build_agent ''__memory__'' extra () () noon 600 =
       (Inl (ValueError
          ''This function is meant for a main character but it was called on a supporting character.'')
        :: error + (unit, unit) EntityAgentWithLogging)"
proof -
  have h: "\<not> truthy (dict_get (extras extra) ''main_character'' (PyBool False))"
    by (simp add: extra_def dict_get_def)
  from supporting_character_rejected [OF h, of "''__memory__''" "()" "()" noon 600] h
  show ?thesis by simp
qed

text \<open>
  C3. In every agent that \<^verbatim>\<open>build_agent\<close> returns, with or without a goal, every
  name that a registered component declares in its \<^verbatim>\<open>components\<close> mapping is a
  key of the agent's component registry.
\<close>

theorem declared_dependencies_are_registered:
  fixes a :: "('m, 'b) EntityAgentWithLogging"
  assumes built: "build_agent mn config model memory clock u = Inr a"
    and reg: "(n, c) \<in> set (context_components a)"
    and dep: "k \<in> set (dict_keys (declared_components c))"
  shows "k \<in> set (dict_keys (context_components a))"
proof -
  let ?ecs = "entity_components config model clock :: ('m, 'b) component list"
  let ?mem = "MemoryComponent (AssociativeMemoryBank memory) :: ('m, 'b) component"
  let ?R = "dict_setitem (components_by_class_name ?ecs) mn ?mem"
  let ?g = "Constant (goal config) goal_label goal_label :: ('m, 'b) component"
  have R_vals: "snd ` set ?R \<subseteq> insert ?mem (set ?ecs)"
    using dict_setitem_values [of "components_by_class_name ?ecs" mn ?mem]
    by (simp add: registry_of_entity_components image_image)
  have R_keys: "set (map get_class_name ?ecs) \<subseteq> fst ` set ?R"
    by (simp add: dict_setitem_dom registry_of_entity_components image_image subset_insertI)
  show ?thesis
  proof (cases "goal config = []")
    case True
    then have "overarching_goal config = (None :: ('m, 'b) component option)"
      by (simp add: overarching_goal_def)
    then have ctx: "context_components a = ?R"
      using build_agent_InrD(2) [OF built] by simp
    from reg ctx have "c \<in> snd ` set ?R" by force
    with R_vals have "c = ?mem \<or> c \<in> set ?ecs" by auto
    then show ?thesis
    proof
      assume "c = ?mem"
      with dep show ?thesis by (simp add: dict_keys_def)
    next
      assume "c \<in> set ?ecs"
      from declared_components_of_entity_components [OF this dep] True
      have "k \<in> set (map get_class_name ?ecs)" by simp
      with R_keys ctx show ?thesis by (auto simp: dict_keys_def)
    qed
  next
    case False
    then have "overarching_goal config = Some ?g"
      by (simp add: overarching_goal_def)
    then have ctx: "context_components a = dict_setitem ?R goal_label ?g"
      using build_agent_InrD(2) [OF built] by simp
    have keys: "fst ` set (context_components a) = insert goal_label (fst ` set ?R)"
      unfolding ctx by (rule dict_setitem_dom)
    from reg ctx have "c \<in> snd ` set (dict_setitem ?R goal_label ?g)" by force
    with dict_setitem_values [of ?R goal_label ?g] R_vals
    have "c = ?g \<or> c = ?mem \<or> c \<in> set ?ecs" by auto
    then show ?thesis
    proof (elim disjE)
      assume "c = ?g"
      with dep show ?thesis by (simp add: dict_keys_def)
    next
      assume "c = ?mem"
      with dep show ?thesis by (simp add: dict_keys_def)
    next
      assume "c \<in> set ?ecs"
      from declared_components_of_entity_components [OF this dep]
      have "k \<in> set (map get_class_name ?ecs) \<or> k = goal_label" by blast
      with R_keys keys show ?thesis by (auto simp: dict_keys_def)
    qed
  qed
qed

theorem declared_dependencies_are_registered_witness:
  "\<exists>a :: (unit, unit) EntityAgentWithLogging.
     build_agent ''__memory__'' bob () () noon 600 = Inr a
     \<and> (''BestOptionPerception'', best_option_perception bob () noon) \<in> set (context_components a)
     \<and> goal_label \<in> set (dict_keys (declared_components
                                     (best_option_perception bob () noon :: (unit, unit) component)))
     \<and> goal_label \<in> set (dict_keys (context_components a))"
proof -
  let ?c = "best_option_perception bob () noon :: (unit, unit) component"
  have t: "truthy (dict_get (extras bob) ''main_character'' (PyBool False))"
    by (simp add: bob_def dict_get_def)
  obtain a :: "(unit, unit) EntityAgentWithLogging"
    where a: "build_agent ''__memory__'' bob () () noon 600 = Inr a"
    using build_agent_succeeds [OF t, of "''__memory__''" "()" "()" noon 600] by blast
  have cn: "get_class_name ?c = ''BestOptionPerception''"
    by (simp add: best_option_perception_def Let_def)
  have "?c \<in> set (entity_components bob () noon)"
    by (simp add: entity_components_def Let_def)
  from entity_component_registered [OF a this] cn
  have reg: "(''BestOptionPerception'', ?c) \<in> set (context_components a)" by simp
  have dep: "goal_label \<in> set (dict_keys (declared_components ?c))"
    by (simp add: best_option_perception_def Let_def bob_def dict_keys_def dict_update_def)
  from declared_dependencies_are_registered [OF a reg dep] a reg dep show ?thesis by blast
qed




text \<open>
  C5. The output kind of every action specification is one of exactly three kinds, which
  are pairwise different and are all the kinds \<^verbatim>\<open>OutputType\<close> has: free-form,
  choice, and the numeric kind, which the source names \<^verbatim>\<open>FLOAT\<close>. Their string
  values differ as well.
\<close>

theorem output_type_three_kinds:
  "(output_type (s :: ActionSpec) = FREE \<or> output_type s = CHOICE \<or> output_type s = FLOAT)
   \<and> (UNIV :: OutputType set) = {FREE, CHOICE, FLOAT}
   \<and> distinct [FREE, CHOICE, FLOAT]
   \<and> distinct (map OutputType_value [FREE, CHOICE, FLOAT])"
proof -
  have "output_type s = FREE \<or> output_type s = CHOICE \<or> output_type s = FLOAT"
    by (cases "output_type s") simp_all
  moreover have "(UNIV :: OutputType set) = {FREE, CHOICE, FLOAT}"
    using OutputType.exhaust by auto
  ultimately show ?thesis by simp
qed

text \<open>
  C6. The claim: for every action specification, options are present only when the
  output kind is \<^verbatim>\<open>CHOICE\<close>; for the two other kinds there are none.

  \<^verbatim>\<open>ActionSpec\<close> is a plain frozen dataclass: nothing relates
  \<^verbatim>\<open>options\<close> to \<^verbatim>\<open>output_type\<close>. A free-form specification can hold
  two options.
\<close>

theorem options_with_free_output_counterexample:
  "options (ActionSpec_init ''Pick one.'' FREE (Some [''yes'', ''no'']) None) = Some [''yes'', ''no'']
   \<and> output_type (ActionSpec_init ''Pick one.'' FREE (Some [''yes'', ''no'']) None) = FREE
   \<and> FREE \<noteq> CHOICE"
  by (simp add: ActionSpec_init_def)

text \<open>
  C6, as the source has it. The options field is optional and independent of the output
  kind: the constructor stores the options it is given and the output kind it is given;
  a specification built without options has none, whatever its output kind; and the
  default specification has none.
\<close>

theorem options_stored_as_given:
  "options (ActionSpec_init cta ot None tg) = None
   \<and> options (ActionSpec_init cta ot (Some os) tg) = Some os
   \<and> output_type (ActionSpec_init cta ot opts tg) = ot
   \<and> options DEFAULT_ACTION_SPEC = None"
  by (simp add: ActionSpec_init_def DEFAULT_ACTION_SPEC_def)

text \<open>
  C7. The action specification that \<^verbatim>\<open>act\<close> receives when the caller gives none
  is \<^verbatim>\<open>DEFAULT_ACTION_SPEC\<close>: free-form output, the call to action
  \<^verbatim>\<open>DEFAULT_CALL_TO_ACTION\<close>, no options, and the tag \<^verbatim>\<open>action\<close>.
\<close>

theorem default_action_spec_fields:
  "act_action_spec None = DEFAULT_ACTION_SPEC
   \<and> output_type DEFAULT_ACTION_SPEC = FREE
   \<and> call_to_action DEFAULT_ACTION_SPEC = DEFAULT_CALL_TO_ACTION
   \<and> options DEFAULT_ACTION_SPEC = None
   \<and> tag DEFAULT_ACTION_SPEC = Some ''action''"
  by (simp add: act_action_spec_def DEFAULT_ACTION_SPEC_def ActionSpec_init_def)

text \<open>
  C8. The claim: for every configuration with an empty goal, \<^verbatim>\<open>build_agent\<close>
  succeeds without error, adds no goal component to the registry or to the component
  order, and leaves the goal name out of the dependency mappings of the
  options-perception and best-option components.

  The factory tests the \<^verbatim>\<open>main_character\<close> flag whether or not there is a goal:
  for a configuration with an empty goal and no flag it raises \<^verbatim>\<open>ValueError\<close>
  and returns no agent.
\<close>

theorem supporting_character_without_goal_counterexample:
  "goal sue = []
   \<and> isl (build_agent ''__memory__'' sue () () noon 600)
   \<and> build_agent ''__memory__'' sue () () noon 600 =
       (Inl (ValueError
          ''This function is meant for a main character but it was called on a supporting character.'')
        :: error + (unit, unit) EntityAgentWithLogging)"
  by (simp add: build_agent_def sue_def dict_get_def)

text \<open>
  C8, as the source has it. For every configuration with an empty goal whose extras flag
  a main character, \<^verbatim>\<open>build_agent\<close> returns an agent. The component order is the list of the registry's keys, with nothing
  inserted; every registered component is one of the thirteen entity components or the
  memory component, and the goal component is not among them; the goal label is neither a
  key of the registry nor in the component order (the reserved memory name being another
  string than the goal label); and the goal label is not a key of the
  \<^verbatim>\<open>components\<close> mapping of the options-perception component, of the best-option
  component, or of any registered component.
\<close>

theorem build_agent_without_goal:
  fixes model :: 'm and memory :: 'b
  assumes main: "truthy (dict_get (extras config) ''main_character'' (PyBool False))"
    and no_goal: "goal config = []"
  shows "\<exists>a :: ('m, 'b) EntityAgentWithLogging.
       build_agent mn config model memory clock u = Inr a
     \<and> component_order (act_component a) = dict_keys (context_components a)
     \<and> snd ` set (context_components a)
         \<subseteq> insert (MemoryComponent (AssociativeMemoryBank memory))
             (set (entity_components config model clock))
     \<and> Constant (goal config) goal_label goal_label \<notin> snd ` set (context_components a)
     \<and> (mn \<noteq> goal_label \<longrightarrow>
          goal_label \<notin> set (dict_keys (context_components a))
          \<and> goal_label \<notin> set (component_order (act_component a)))
     \<and> dict_keys (declared_components
                    (options_perception config model clock :: ('m, 'b) component)) =
         [''Observation'', ''ObservationSummary'', ''AllSimilarMemories'']
     \<and> dict_keys (declared_components
                    (best_option_perception config model clock :: ('m, 'b) component)) =
         [''Observation'', ''ObservationSummary'', ''AllSimilarMemories'',
          ''AvailableOptionsPerception'']
     \<and> (\<forall>(n, c) \<in> set (context_components a).
          goal_label \<notin> set (dict_keys (declared_components c)))"
proof -
  let ?ecs = "entity_components config model clock :: ('m, 'b) component list"
  let ?mem = "MemoryComponent (AssociativeMemoryBank memory) :: ('m, 'b) component"
  let ?R = "dict_setitem (components_by_class_name ?ecs) mn ?mem"
  obtain a :: "('m, 'b) EntityAgentWithLogging"
    where a: "build_agent mn config model memory clock u = Inr a"
    using build_agent_succeeds [OF main, of mn model memory clock u] by blast
  from no_goal have og: "overarching_goal config = (None :: ('m, 'b) component option)"
    by (simp add: overarching_goal_def)
  have ctx: "context_components a = ?R"
    using build_agent_InrD(2) [OF a] og by simp
  have order: "component_order (act_component a) = dict_keys ?R"
    using build_agent_InrD(3) [OF a] og by simp
  have vals: "snd ` set (context_components a) \<subseteq> insert ?mem (set ?ecs)"
    unfolding ctx
    using dict_setitem_values [of "components_by_class_name ?ecs" mn ?mem]
    by (simp add: registry_of_entity_components image_image)
  have "Constant (goal config) goal_label goal_label \<notin> insert ?mem (set ?ecs)"
    using goal_constant_not_entity_component [of "goal config" config model clock] by simp
  with vals have nogoal: "Constant (goal config) goal_label goal_label
                            \<notin> snd ` set (context_components a)"
    by blast
  have notcls: "goal_label \<notin> set (map get_class_name ?ecs)"
    by (rule goal_label_not_class_name)
  have keys: "mn \<noteq> goal_label \<Longrightarrow> goal_label \<notin> set (dict_keys (context_components a))"
    unfolding ctx registry_keys using notcls by simp
  have deps: "goal_label \<notin> set (dict_keys (declared_components c))"
    if "(n, c) \<in> set (context_components a)" for n c
  proof -
    from that vals have "c = ?mem \<or> c \<in> set ?ecs" by force
    then show ?thesis
    proof
      assume "c = ?mem"
      then show ?thesis by (simp add: dict_keys_def)
    next
      assume c: "c \<in> set ?ecs"
      show ?thesis
      proof
        assume "goal_label \<in> set (dict_keys (declared_components c))"
        from declared_components_of_entity_components [OF c this] no_goal notcls
        show False by simp
      qed
    qed
  qed
  from no_goal have
    "dict_keys (declared_components (options_perception config model clock :: ('m, 'b) component)) =
       [''Observation'', ''ObservationSummary'', ''AllSimilarMemories'']"
    "dict_keys (declared_components
                  (best_option_perception config model clock :: ('m, 'b) component)) =
       [''Observation'', ''ObservationSummary'', ''AllSimilarMemories'',
        ''AvailableOptionsPerception'']"
    by (simp_all add: declared_component_keys)
  with a ctx order vals nogoal keys deps show ?thesis
    by (intro exI [of _ a]) auto
qed

theorem build_agent_without_goal_witness:
  "truthy (dict_get (extras ann) ''main_character'' (PyBool False))
   \<and> goal ann = []
   \<and> ''__memory__'' \<noteq> goal_label
   \<and> (\<exists>a :: (unit, unit) EntityAgentWithLogging.
         build_agent ''__memory__'' ann () () noon 600 = Inr a
         \<and> component_order (act_component a) = dict_keys (context_components a)
         \<and> goal_label \<notin> set (component_order (act_component a)))"
proof -
  have t: "truthy (dict_get (extras ann) ''main_character'' (PyBool False))"
    by (simp add: ann_def dict_get_def)
  have g: "goal ann = []" by (simp add: ann_def)
  have m: "''__memory__'' \<noteq> goal_label" by (simp add: goal_label_def)
  from build_agent_without_goal [OF t g, of "''__memory__''" "()" "()" noon 600] t g m
  show ?thesis by blast
qed

text \<open>
  C9. The result of \<^verbatim>\<open>build_agent\<close> does not depend on
  \<^verbatim>\<open>update_time_interval\<close>: two calls that agree on the other arguments return
  the same value, be it the error or the agent with its registry, its component order and
  all its components' parameters.
\<close>

theorem build_agent_ignores_update_time_interval:
  "build_agent mn config model memory clock u1 = build_agent mn config model memory clock u2"
  by (simp add: build_agent_def)

text \<open>
  C10. For every overarching goal and agent name, the reminder that
  \<^verbatim>\<open>get_pomodoro_reminder\<close> returns gives, for every chain of thought and every
  clock time, the same string: the agent's name, then \<^verbatim>\<open> should stay on topic: \<close>,
  the goal, and a full stop.
\<close>

theorem pomodoro_reminder_constant:
  "get_pomodoro_reminder g n c t = n @ '' should stay on topic: '' @ g @ ''.''
   \<and> get_pomodoro_reminder g n c t = get_pomodoro_reminder g n c' t'"
  by (simp add: get_pomodoro_reminder_def)

end
